theory Spec2Isabelle
  imports Main
begin

section \<open>Environment variables given on the command line\<close>

text \<open>
  \<^verbatim>\<open>_format_input_env_variables\<close> of \<^verbatim>\<open>lightning_app/utilities/cli_helpers.py\<close> turns
  entries of the form \<^verbatim>\<open>foo=bar\<close> into a dictionary. Python strings are modelled as
  \<^typ>\<open>string\<close>; the only characters the function inspects are ASCII, so the UTF-8
  reading of a Python string behaves as the string itself.
\<close>

subsection \<open>\<^verbatim>\<open>str.split\<close> with a one-character separator\<close>

text \<open>
  \<^verbatim>\<open>s.split(sep)\<close> cuts at every occurrence of the separator and keeps empty pieces:
  \<^verbatim>\<open>"a=b=c".split("=") == ["a", "b", "c"]\<close>, \<^verbatim>\<open>"a=".split("=") == ["a", ""]\<close>,
  \<^verbatim>\<open>"".split("=") == [""]\<close>.
\<close>

fun split :: "char \<Rightarrow> string \<Rightarrow> string list" where
  "split sep [] = [[]]"
| "split sep (c # cs) =
     (if c = sep then [] # split sep cs
      else (case split sep cs of
              [] \<Rightarrow> [[c]]
            | p # ps \<Rightarrow> (c # p) # ps))"

subsection \<open>The name check\<close>

text \<open>The character class \<^verbatim>\<open>[0-9a-zA-Z_]\<close>, its ranges read on character codes.\<close>

definition name_char :: "char \<Rightarrow> bool" where
  "name_char c =
     (let n = (of_char c :: nat) in
      (of_char CHR ''0'' \<le> n \<and> n \<le> of_char CHR ''9'') \<or>
      (of_char CHR ''a'' \<le> n \<and> n \<le> of_char CHR ''z'') \<or>
      (of_char CHR ''A'' \<le> n \<and> n \<le> of_char CHR ''Z'') \<or>
      c = CHR ''_'')"

text \<open>
  \<^verbatim>\<open>re.match(r"[0-9a-zA-Z_]+", var_name)\<close> anchors the pattern at the start of the
  string only: it succeeds when the longest run of class characters at the start is not
  empty, whatever follows the run.
\<close>

definition re_match_name :: "string \<Rightarrow> bool" where
  "re_match_name var_name = (takeWhile name_char var_name \<noteq> [])"

subsection \<open>The function\<close>

text \<open>
  The three \<^verbatim>\<open>raise\<close> statements, each with the value its message interpolates:
  \<^verbatim>\<open>Exception("Invalid format of environment variable {env_str}, ...")\<close>,
  \<^verbatim>\<open>Exception("Environment variable '{var_name}' is duplicated. ...")\<close> and
  \<^verbatim>\<open>ValueError("Environment variable '{var_name}' is not a valid name. ...")\<close>.
\<close>

datatype env_error =
    InvalidFormat string
  | Duplicated string
  | ValueError string

text \<open>
  The body of the \<^verbatim>\<open>for\<close> loop, from the dictionary built so far. The test
  \<^verbatim>\<open>len(var_parts) != 2 or not var_parts[0]\<close> reads \<^verbatim>\<open>var_parts[0]\<close> only when there are
  two parts.
\<close>

fun format_loop :: "(string \<rightharpoonup> string) \<Rightarrow> string list \<Rightarrow> env_error + (string \<rightharpoonup> string)" where
  "format_loop env_vars_dict [] = Inr env_vars_dict"
| "format_loop env_vars_dict (env_str # rest) =
     (let var_parts = split CHR ''='' env_str in
      if length var_parts \<noteq> 2 \<or> var_parts ! 0 = [] then Inl (InvalidFormat env_str)
      else
        let var_name = var_parts ! 0; val = var_parts ! 1 in
        if env_vars_dict var_name \<noteq> None then Inl (Duplicated var_name)
        else if \<not> re_match_name var_name then Inl (ValueError var_name)
        else format_loop (env_vars_dict(var_name \<mapsto> val)) rest)"

definition format_input_env_variables :: "string list \<Rightarrow> env_error + (string \<rightharpoonup> string)" where
  "format_input_env_variables env_list = format_loop Map.empty env_list"

text \<open>Vocabulary for the statements: the name and the value an entry stands for.\<close>

definition var_name_of :: "string \<Rightarrow> string" where
  "var_name_of env_str = split CHR ''='' env_str ! 0"

definition value_of :: "string \<Rightarrow> string" where
  "value_of env_str = split CHR ''='' env_str ! 1"

definition two_parts :: "string \<Rightarrow> bool" where
  "two_parts env_str = (length (split CHR ''='' env_str) = 2 \<and> var_name_of env_str \<noteq> [])"

section \<open>Resolving an application to its URL and commands\<close>

subsection \<open>The collaborators\<close>

text \<open>A parsed JSON document: an opaque payload.\<close>

datatype json = Json string

text \<open>
  A response: its status code and what \<^verbatim>\<open>resp.json()\<close> gives, \<^verbatim>\<open>Some\<close> of the parsed
  body, or \<^verbatim>\<open>None\<close> when the body is not JSON and the call raises \<^verbatim>\<open>JSONDecodeError\<close>.
\<close>

record response =
  status_code :: int
  json :: "json option"

text \<open>
  \<^verbatim>\<open>requests.get\<close> either raises \<^verbatim>\<open>requests.exceptions.ConnectionError\<close> or returns a
  response.
\<close>

datatype http_result = ConnectionError | Response response

text \<open>An application instance as the directory service lists it.\<close>

record lightningapp_status =
  url :: string

record lightningapp =
  id' :: string
  name :: string
  status :: lightningapp_status

text \<open>
  What the function reads from outside: the answers of \<^verbatim>\<open>requests.get\<close> by URL, the
  constant \<^verbatim>\<open>APP_SERVER_PORT\<close> of \<^verbatim>\<open>lightning_app.core.constants\<close>, the \<^verbatim>\<open>project_id\<close>
  of the project \<^verbatim>\<open>_get_project(client)\<close> returns, and the \<^verbatim>\<open>lightningapps\<close> of the
  listing the client returns for a project id.
\<close>

record world =
  requests_get :: "string \<Rightarrow> http_result"
  APP_SERVER_PORT :: nat
  get_project_id :: string
  list_lightningapp_instances :: "string \<Rightarrow> lightningapp list"

text \<open>The calls the function makes to the outside, in the order it makes them.\<close>

datatype event =
    Get string
  | NewLightningClient
  | GetProject
  | ListLightningappInstances string

text \<open>
  The exceptions that leave the function:
  \<^verbatim>\<open>Exception("The server didn't process the request properly. Found {resp.json()}")\<close>,
  \<^verbatim>\<open>Exception("Provide an application name, id or url with --app_id=X. Found {lightningapp_names}")\<close>,
  \<^verbatim>\<open>Exception("The application is starting. Try in a few moments.")\<close>, a
  \<^verbatim>\<open>ConnectionError\<close> of \<^verbatim>\<open>requests.get\<close> outside the \<^verbatim>\<open>try\<close> block, the
  \<^verbatim>\<open>JSONDecodeError\<close> of \<^verbatim>\<open>resp.json()\<close>, and the failure of \<^verbatim>\<open>assert url\<close>. The
  specification calls the first three \<^verbatim>\<open>RemoteProtocolError\<close>, \<^verbatim>\<open>InputError\<close> and
  \<^verbatim>\<open>NotReadyError\<close>.
\<close>

datatype resolve_error =
    ServerDidNotProcess json
  | ProvideApplicationName "string list"
  | ApplicationStarting
  | RequestsConnectionError
  | JSONDecodeError
  | AssertionError

type_synonym outcome = "resolve_error + (string option \<times> json option)"

subsection \<open>Helpers\<close>

definition startswith :: "string \<Rightarrow> string \<Rightarrow> bool" where
  "startswith s p = (take (length p) s = p)"

fun is_url :: "string option \<Rightarrow> bool" where
  "is_url None = False"
| "is_url (Some s) = (startswith s ''https://'' \<or> startswith s ''http://'')"

text \<open>Python's truth value of an optional string: \<^verbatim>\<open>None\<close> and \<^verbatim>\<open>""\<close> are false.\<close>

fun truthy :: "string option \<Rightarrow> bool" where
  "truthy None = False"
| "truthy (Some s) = (s \<noteq> [])"

text \<open>\<^verbatim>\<open>str\<close> of a natural number, for the f-string \<^verbatim>\<open>f"http://localhost:{APP_SERVER_PORT}"\<close>.\<close>

definition digit_char :: "nat \<Rightarrow> char" where
  "digit_char d = ''0123456789'' ! d"

function str_nat :: "nat \<Rightarrow> string" where
  "str_nat n = (if n < 10 then [digit_char n] else str_nat (n div 10) @ [digit_char (n mod 10)])"
  by pat_completeness auto
termination
  by (relation "measure (\<lambda>n. n)") auto

declare str_nat.simps [simp del]

definition local_url :: "world \<Rightarrow> string" where
  "local_url w = ''http://localhost:'' @ str_nat (APP_SERVER_PORT w)"

text \<open>
  The three lines the function repeats for each endpoint: \<^verbatim>\<open>requests.get\<close> of the URL
  with \<^verbatim>\<open>/api/v1/commands\<close> appended, the status check, and the returned pair. Both the
  message of the exception and the returned pair call \<^verbatim>\<open>resp.json()\<close>, which raises on a
  body that is not JSON: then no \<^verbatim>\<open>Exception\<close> is built and nothing is returned.
\<close>

definition fetch_commands :: "world \<Rightarrow> string \<Rightarrow> outcome" where
  "fetch_commands w u =
     (case requests_get w (u @ ''/api/v1/commands'') of
        ConnectionError \<Rightarrow> Inl RequestsConnectionError
      | Response resp \<Rightarrow>
          if status_code resp \<noteq> 200 then
            (case json resp of
               None \<Rightarrow> Inl JSONDecodeError
             | Some body \<Rightarrow> Inl (ServerDidNotProcess body))
          else
            (case json resp of
               None \<Rightarrow> Inl JSONDecodeError
             | Some body \<Rightarrow> Inr (Some u, Some body)))"

text \<open>
  Step 2, the \<^verbatim>\<open>try\<close> block: \<^verbatim>\<open>Some\<close> of what it returns or raises, or \<^verbatim>\<open>None\<close> when
  the \<^verbatim>\<open>except\<close> clause caught a \<^verbatim>\<open>ConnectionError\<close> and set \<^verbatim>\<open>failed_locally\<close>. The
  clause catches nothing else: neither the \<^verbatim>\<open>Exception\<close> of the status check nor a
  \<^verbatim>\<open>JSONDecodeError\<close>.
\<close>

definition local_instance :: "world \<Rightarrow> outcome option" where
  "local_instance w =
     (case fetch_commands w (local_url w) of
        Inl RequestsConnectionError \<Rightarrow> None
      | out \<Rightarrow> Some out)"

text \<open>
  The \<^verbatim>\<open>for\<close> loop over the listed instances, with the calls it makes. The identifier
  is still the optional string: a string field never equals \<^verbatim>\<open>None\<close>. Falling out of the
  loop reaches \<^verbatim>\<open>return None, None\<close>.
\<close>

fun scan :: "world \<Rightarrow> string option \<Rightarrow> lightningapp list \<Rightarrow> outcome \<times> event list" where
  "scan w app_id_or_name_or_url [] = (Inr (None, None), [])"
| "scan w app_id_or_name_or_url (app # apps) =
     (if Some (id' app) = app_id_or_name_or_url \<or> Some (name app) = app_id_or_name_or_url then
        (if url (status app) = [] then (Inl ApplicationStarting, [])
         else (fetch_commands w (url (status app)),
               [Get (url (status app) @ ''/api/v1/commands'')]))
      else scan w app_id_or_name_or_url apps)"

text \<open>Steps 3 and 4: the directory service, or \<^verbatim>\<open>return None, None\<close>.\<close>

definition cloud :: "world \<Rightarrow> string option \<Rightarrow> bool \<Rightarrow> outcome \<times> event list" where
  "cloud w app_id_or_name_or_url failed_locally =
     (if truthy app_id_or_name_or_url \<or> failed_locally then
        (let project_id = get_project_id w;
             lightningapps = list_lightningapp_instances w project_id;
             lightningapp_names = map name lightningapps;
             calls = [NewLightningClient, GetProject, ListLightningappInstances project_id]
         in if \<not> truthy app_id_or_name_or_url
            then (Inl (ProvideApplicationName lightningapp_names), calls)
            else (fst (scan w app_id_or_name_or_url lightningapps),
                  calls @ snd (scan w app_id_or_name_or_url lightningapps)))
      else (Inr (None, None), []))"

subsection \<open>The function\<close>

text \<open>
  The result is what the function returns or raises, with the calls it made. The
  \<^verbatim>\<open>assert url\<close> of step 1 fails on \<^verbatim>\<open>None\<close> and on the empty string.
\<close>

definition retrieve_application_url_and_available_commands ::
    "world \<Rightarrow> string option \<Rightarrow> outcome \<times> event list" where
  "retrieve_application_url_and_available_commands w app_id_or_name_or_url =
     (if is_url app_id_or_name_or_url then
        (case app_id_or_name_or_url of
           None \<Rightarrow> (Inl AssertionError, [])
         | Some u \<Rightarrow>
             if u = [] then (Inl AssertionError, [])
             else (fetch_commands w u, [Get (u @ ''/api/v1/commands'')]))
      else if app_id_or_name_or_url = None then
        (case local_instance w of
           Some out \<Rightarrow> (out, [Get (local_url w @ ''/api/v1/commands'')])
         | None \<Rightarrow>
             (fst (cloud w app_id_or_name_or_url True),
              Get (local_url w @ ''/api/v1/commands'') # snd (cloud w app_id_or_name_or_url True)))
      else cloud w app_id_or_name_or_url False)"

text \<open>The result and the calls, apart.\<close>

definition resolve :: "world \<Rightarrow> string option \<Rightarrow> outcome" where
  "resolve w ident = fst (retrieve_application_url_and_available_commands w ident)"

definition calls_of :: "world \<Rightarrow> string option \<Rightarrow> event list" where
  "calls_of w ident = snd (retrieve_application_url_and_available_commands w ident)"

subsection \<open>The example listing of the specification\<close>

definition manifest :: json where
  "manifest = Json ''{}''"

definition example_apps :: "lightningapp list" where
  "example_apps =
     [\<lparr>id' = ''a'', name = ''foo'', status = \<lparr>url = ''''\<rparr>\<rparr>,
      \<lparr>id' = ''b'', name = ''bar'', status = \<lparr>url = ''http://x''\<rparr>\<rparr>]"

text \<open>
  A world with that listing, an instance answering at \<^verbatim>\<open>http://x\<close> and nothing
  listening on the local port.
\<close>

definition example_world :: world where
  "example_world =
     \<lparr>requests_get = (\<lambda>u. if u = ''http://x/api/v1/commands''
                            then Response \<lparr>status_code = 200, json = Some manifest\<rparr>
                            else ConnectionError),
      APP_SERVER_PORT = 7501,
      get_project_id = ''p'',
      list_lightningapp_instances = (\<lambda>p. if p = ''p'' then example_apps else [])\<rparr>"

text \<open>The same world with every server answering 500.\<close>

definition failing_world :: world where
  "failing_world =
     example_world\<lparr>requests_get := (\<lambda>u. Response \<lparr>status_code = 500, json = Some (Json ''busy'')\<rparr>)\<rparr>"

text \<open>The same world with a local instance answering on the local port.\<close>

definition local_world :: world where
  "local_world =
     example_world\<lparr>requests_get := (\<lambda>u. if u = ''http://localhost:7501/api/v1/commands''
                            then Response \<lparr>status_code = 200, json = Some manifest\<rparr>
                            else ConnectionError)\<rparr>"

text \<open>The same world with no instance listed: the project is another one.\<close>

definition empty_world :: world where
  "empty_world = example_world\<lparr>get_project_id := ''q''\<rparr>"

text \<open>The same world with every server answering 200 with a body that is not JSON.\<close>

definition text_world :: world where
  "text_world =
     example_world\<lparr>requests_get := (\<lambda>u. Response \<lparr>status_code = 200, json = None\<rparr>)\<rparr>"

text \<open>The same world with every server answering 500 with a body that is not JSON.\<close>

definition text_error_world :: world where
  "text_error_world =
     example_world\<lparr>requests_get := (\<lambda>u. Response \<lparr>status_code = 500, json = None\<rparr>)\<rparr>"

section \<open>Properties of the resolver\<close>

subsection \<open>The function by the kind of identifier\<close>

lemma is_url_not_empty: "is_url (Some s) \<Longrightarrow> s \<noteq> []"
  by (auto simp: startswith_def)

lemma retrieve_url:
  "is_url (Some s) \<Longrightarrow>
   retrieve_application_url_and_available_commands w (Some s) =
     (fetch_commands w s, [Get (s @ ''/api/v1/commands'')])"
  using is_url_not_empty [of s]
  by (simp add: retrieve_application_url_and_available_commands_def)

lemma retrieve_named:
  "\<not> is_url (Some s) \<Longrightarrow>
   retrieve_application_url_and_available_commands w (Some s) = cloud w (Some s) False"
  by (simp add: retrieve_application_url_and_available_commands_def)

lemma retrieve_absent:
  "retrieve_application_url_and_available_commands w None =
     (case local_instance w of
        Some out \<Rightarrow> (out, [Get (local_url w @ ''/api/v1/commands'')])
      | None \<Rightarrow> (fst (cloud w None True),
                 Get (local_url w @ ''/api/v1/commands'') # snd (cloud w None True)))"
  by (simp add: retrieve_application_url_and_available_commands_def)

lemma cloud_absent:
  "cloud w None True =
     (Inl (ProvideApplicationName (map name (list_lightningapp_instances w (get_project_id w)))),
      [NewLightningClient, GetProject, ListLightningappInstances (get_project_id w)])"
  by (simp add: cloud_def Let_def)

lemma cloud_named:
  "s \<noteq> [] \<Longrightarrow>
   cloud w (Some s) False =
     (fst (scan w (Some s) (list_lightningapp_instances w (get_project_id w))),
      [NewLightningClient, GetProject, ListLightningappInstances (get_project_id w)] @
      snd (scan w (Some s) (list_lightningapp_instances w (get_project_id w))))"
  by (simp add: cloud_def Let_def)

lemma cloud_empty: "cloud w (Some []) False = (Inr (None, None), [])"
  by (simp add: cloud_def)

lemma local_instance_unreachable:
  "requests_get w (local_url w @ ''/api/v1/commands'') = ConnectionError \<Longrightarrow>
   local_instance w = None"
  by (simp add: local_instance_def fetch_commands_def)

lemma local_instance_response:
  "requests_get w (local_url w @ ''/api/v1/commands'') = Response resp \<Longrightarrow>
   local_instance w =
     Some (case json resp of
             None \<Rightarrow> Inl JSONDecodeError
           | Some body \<Rightarrow>
               if status_code resp \<noteq> 200 then Inl (ServerDidNotProcess body)
               else Inr (Some (local_url w), Some body))"
  by (simp add: local_instance_def fetch_commands_def split: option.splits)

subsection \<open>The loop over the listing\<close>

lemma scan_no_match:
  "\<forall>a\<in>set apps. id' a \<noteq> s \<and> name a \<noteq> s \<Longrightarrow> scan w (Some s) apps = (Inr (None, None), [])"
  by (induction apps) auto

lemma scan_first_match:
  "find (\<lambda>a. id' a = s \<or> name a = s) apps = Some app \<Longrightarrow>
   scan w (Some s) apps =
     (if url (status app) = [] then (Inl ApplicationStarting, [])
      else (fetch_commands w (url (status app)),
            [Get (url (status app) @ ''/api/v1/commands'')]))"
  by (induction apps) (auto split: if_splits)

subsection \<open>The example worlds\<close>

lemma str_nat_7501: "str_nat 7501 = ''7501''"
  by (simp add: str_nat.simps digit_char_def)

lemma find_bar:
  "find (\<lambda>a. id' a = ''bar'' \<or> name a = ''bar'')
     (list_lightningapp_instances example_world (get_project_id example_world)) =
   Some \<lparr>id' = ''b'', name = ''bar'', status = \<lparr>url = ''http://x''\<rparr>\<rparr>"
  by (simp add: example_world_def example_apps_def)

lemma find_a:
  "find (\<lambda>a. id' a = ''a'' \<or> name a = ''a'')
     (list_lightningapp_instances example_world (get_project_id example_world)) =
   Some \<lparr>id' = ''a'', name = ''foo'', status = \<lparr>url = ''''\<rparr>\<rparr>"
  by (simp add: example_world_def example_apps_def)

lemma local_url_example: "local_url example_world = ''http://localhost:7501''"
  by (simp add: local_url_def example_world_def str_nat_7501)

lemma local_unreachable_example:
  "requests_get example_world (local_url example_world @ ''/api/v1/commands'') = ConnectionError"
  by (simp add: local_url_example) (simp add: example_world_def)

lemma local_unreachable_empty:
  "requests_get empty_world (local_url empty_world @ ''/api/v1/commands'') = ConnectionError"
proof -
  have "local_url empty_world = ''http://localhost:7501''"
    by (simp add: local_url_def empty_world_def example_world_def str_nat_7501)
  then show ?thesis
    by (simp add: empty_world_def example_world_def)
qed

subsection \<open>Direct URL\<close>

text \<open>
  Claim C1, as stated, fails when the body of the response is not JSON: with status 200
  the function raises the \<^verbatim>\<open>JSONDecodeError\<close> of \<^verbatim>\<open>resp.json()\<close> instead of returning the
  pair, and with status 500 it raises that same error while it builds the message of the
  exception the claim names.
\<close>

theorem direct_url_counterexample:
  "startswith ''http://x'' ''http://'' \<and>
   requests_get text_world ''http://x/api/v1/commands'' =
     Response \<lparr>status_code = 200, json = None\<rparr> \<and>
   resolve text_world (Some ''http://x'') = Inl JSONDecodeError \<and>
   requests_get text_error_world ''http://x/api/v1/commands'' =
     Response \<lparr>status_code = 500, json = None\<rparr> \<and>
   resolve text_error_world (Some ''http://x'') = Inl JSONDecodeError"
  by (simp add: startswith_def resolve_def retrieve_url fetch_commands_def)
     (simp add: text_world_def text_error_world_def)

text \<open>
  Claim C1, amended. For every identifier that starts with \<^verbatim>\<open>http://\<close> or \<^verbatim>\<open>https://\<close>, the
  only call the function makes is one GET of the identifier followed by
  \<^verbatim>\<open>/api/v1/commands\<close>: the directory service is not consulted. When the response has a
  JSON body and status 200 the result is the pair of the identifier and the parsed body;
  when it has a JSON body and another status the function raises the exception "the
  server didn't process the request properly" (the specification's
  \<^verbatim>\<open>RemoteProtocolError\<close>) with the parsed body.
\<close>

theorem direct_url:
  assumes "startswith s ''http://'' \<or> startswith s ''https://''"
  shows "calls_of w (Some s) = [Get (s @ ''/api/v1/commands'')] \<and>
         (\<forall>resp body. requests_get w (s @ ''/api/v1/commands'') = Response resp \<and>
                       json resp = Some body \<longrightarrow>
            (status_code resp = 200 \<longrightarrow> resolve w (Some s) = Inr (Some s, Some body)) \<and>
            (status_code resp \<noteq> 200 \<longrightarrow>
               resolve w (Some s) = Inl (ServerDidNotProcess body)))"
proof -
  from assms have "is_url (Some s)"
    by auto
  then have "retrieve_application_url_and_available_commands w (Some s) =
      (fetch_commands w s, [Get (s @ ''/api/v1/commands'')])"
    by (rule retrieve_url)
  then show ?thesis
    by (simp add: calls_of_def resolve_def fetch_commands_def)
qed

theorem direct_url_witness:
  "calls_of example_world (Some ''http://x'') = [Get ''http://x/api/v1/commands''] \<and>
   resolve example_world (Some ''http://x'') = Inr (Some ''http://x'', Some manifest) \<and>
   calls_of failing_world (Some ''http://x'') = [Get ''http://x/api/v1/commands''] \<and>
   resolve failing_world (Some ''http://x'') = Inl (ServerDidNotProcess (Json ''busy''))"
proof -
  have h: "startswith ''http://x'' ''http://'' \<or> startswith ''http://x'' ''https://''"
    by (simp add: startswith_def)
  have ok: "requests_get example_world (''http://x'' @ ''/api/v1/commands'') =
      Response \<lparr>status_code = 200, json = Some manifest\<rparr>"
    by (simp add: example_world_def)
  have ko: "requests_get failing_world (''http://x'' @ ''/api/v1/commands'') =
      Response \<lparr>status_code = 500, json = Some (Json ''busy'')\<rparr>"
    by (simp add: failing_world_def)
  show ?thesis
    using direct_url [OF h, of example_world] direct_url [OF h, of failing_world] ok ko
    by simp
qed

subsection \<open>Remote lookup\<close>

text \<open>
  Claim C2, as stated, fails when the matched instance answers 200 with a body that is
  not JSON: on the specification's listing \<^verbatim>\<open>bar\<close> matches the instance at \<^verbatim>\<open>http://x\<close>,
  and the function raises the \<^verbatim>\<open>JSONDecodeError\<close> of \<^verbatim>\<open>resp.json()\<close> instead of returning
  the pair.
\<close>

theorem remote_first_match_counterexample:
  "find (\<lambda>a. id' a = ''bar'' \<or> name a = ''bar'')
     (list_lightningapp_instances text_world (get_project_id text_world)) =
     Some \<lparr>id' = ''b'', name = ''bar'', status = \<lparr>url = ''http://x''\<rparr>\<rparr> \<and>
   requests_get text_world ''http://x/api/v1/commands'' =
     Response \<lparr>status_code = 200, json = None\<rparr> \<and>
   resolve text_world (Some ''bar'') = Inl JSONDecodeError"
proof -
  have l: "list_lightningapp_instances text_world (get_project_id text_world) = example_apps"
    by (simp add: text_world_def example_world_def)
  have r: "requests_get text_world ''http://x/api/v1/commands'' =
      Response \<lparr>status_code = 200, json = None\<rparr>"
    by (simp add: text_world_def)
  have "resolve text_world (Some ''bar'') = Inl JSONDecodeError"
    by (simp add: resolve_def retrieve_named startswith_def cloud_named l)
       (simp add: example_apps_def fetch_commands_def r)
  with l r show ?thesis
    by (simp add: example_apps_def)
qed

text \<open>
  Claim C2, amended. In the remote lookup (the identifier is a non-empty string that is
  not a URL) the first listed instance, in list order, whose id or name equals the
  identifier decides: when its \<^verbatim>\<open>status.url\<close> is the empty string the function raises "the
  application is starting" (the specification's \<^verbatim>\<open>NotReadyError\<close>); otherwise it GETs that
  URL followed by \<^verbatim>\<open>/api/v1/commands\<close> and, on a response with status 200 and a JSON
  body, returns the pair of that URL and the parsed body. The witness is the
  specification's listing: \<^verbatim>\<open>bar\<close> resolves to \<^verbatim>\<open>http://x\<close> with the manifest, \<^verbatim>\<open>a\<close> is
  not ready.
\<close>

theorem remote_first_match:
  assumes "s \<noteq> []" and "\<not> is_url (Some s)"
    and "find (\<lambda>a. id' a = s \<or> name a = s)
           (list_lightningapp_instances w (get_project_id w)) = Some app"
  shows "(url (status app) = [] \<longrightarrow> resolve w (Some s) = Inl ApplicationStarting) \<and>
         (url (status app) \<noteq> [] \<longrightarrow>
            calls_of w (Some s) =
              [NewLightningClient, GetProject, ListLightningappInstances (get_project_id w),
               Get (url (status app) @ ''/api/v1/commands'')] \<and>
            (\<forall>resp body. requests_get w (url (status app) @ ''/api/v1/commands'') = Response resp \<and>
                    status_code resp = 200 \<and> json resp = Some body \<longrightarrow>
               resolve w (Some s) = Inr (Some (url (status app)), Some body)))"
proof -
  have "retrieve_application_url_and_available_commands w (Some s) = cloud w (Some s) False"
    using assms(2) by (rule retrieve_named)
  then show ?thesis
    using assms(1) scan_first_match [OF assms(3), of w]
    by (simp add: resolve_def calls_of_def cloud_named fetch_commands_def)
qed

theorem remote_first_match_witness:
  "resolve example_world (Some ''bar'') = Inr (Some ''http://x'', Some manifest) \<and>
   calls_of example_world (Some ''bar'') =
     [NewLightningClient, GetProject, ListLightningappInstances ''p'',
      Get ''http://x/api/v1/commands''] \<and>
   resolve example_world (Some ''a'') = Inl ApplicationStarting"
proof -
  have u: "\<not> is_url (Some ''bar'')" "\<not> is_url (Some ''a'')"
    by (simp_all add: startswith_def)
  have r: "requests_get example_world ''http://x/api/v1/commands'' =
      Response \<lparr>status_code = 200, json = Some manifest\<rparr>"
    by (simp add: example_world_def)
  have p: "get_project_id example_world = ''p''"
    by (simp add: example_world_def)
  show ?thesis
    using remote_first_match [OF _ u(1) find_bar] remote_first_match [OF _ u(2) find_a] r p
    by simp
qed

subsection \<open>When the remote lookup runs\<close>

text \<open>
  Claim C3, as stated, fails on the empty string: it is a string, it is not a URL, and
  the test \<^verbatim>\<open>if app_id_or_name_or_url or failed_locally\<close> reads it as false, so the
  function makes no call at all and returns \<^verbatim>\<open>(None, None)\<close>.
\<close>

theorem empty_identifier_counterexample:
  "\<not> is_url (Some '''') \<and>
   calls_of example_world (Some '''') = [] \<and>
   resolve example_world (Some '''') = Inr (None, None)"
  by (simp add: startswith_def calls_of_def resolve_def
      retrieve_application_url_and_available_commands_def cloud_def)

text \<open>
  Claim C3, amended. For every identifier that is a non-empty string and does not start
  with \<^verbatim>\<open>http://\<close> or \<^verbatim>\<open>https://\<close>, the function starts with the remote lookup: it
  builds the client, resolves the project and lists the instances of that project, in
  this order. The same three calls follow the GET of the local endpoint when the
  identifier is absent and that GET fails to connect. For the empty string the function
  makes no call and returns \<^verbatim>\<open>(None, None)\<close>.
\<close>

theorem remote_lookup_triggered:
  "(s \<noteq> [] \<and> \<not> is_url (Some s) \<longrightarrow>
      take 3 (calls_of w (Some s)) =
        [NewLightningClient, GetProject, ListLightningappInstances (get_project_id w)]) \<and>
   (requests_get w (local_url w @ ''/api/v1/commands'') = ConnectionError \<longrightarrow>
      calls_of w None =
        [Get (local_url w @ ''/api/v1/commands''),
         NewLightningClient, GetProject, ListLightningappInstances (get_project_id w)]) \<and>
   calls_of w (Some []) = [] \<and> resolve w (Some []) = Inr (None, None)"
proof -
  have a: "take 3 (calls_of w (Some s)) =
        [NewLightningClient, GetProject, ListLightningappInstances (get_project_id w)]"
    if "s \<noteq> []" "\<not> is_url (Some s)"
    using that by (simp add: calls_of_def retrieve_named cloud_named)
  have b: "calls_of w None =
        [Get (local_url w @ ''/api/v1/commands''),
         NewLightningClient, GetProject, ListLightningappInstances (get_project_id w)]"
    if "requests_get w (local_url w @ ''/api/v1/commands'') = ConnectionError"
    using local_instance_unreachable [OF that]
    by (simp add: calls_of_def retrieve_absent cloud_absent)
  have c: "retrieve_application_url_and_available_commands w (Some []) = (Inr (None, None), [])"
    by (simp add: retrieve_named startswith_def cloud_empty)
  show ?thesis
    using a b c by (simp add: calls_of_def resolve_def)
qed

theorem remote_lookup_triggered_witness:
  "take 3 (calls_of example_world (Some ''zzz'')) =
     [NewLightningClient, GetProject, ListLightningappInstances ''p''] \<and>
   calls_of example_world None =
     [Get ''http://localhost:7501/api/v1/commands'',
      NewLightningClient, GetProject, ListLightningappInstances ''p'']"
proof -
  have u: "''zzz'' \<noteq> [] \<and> \<not> is_url (Some ''zzz'')"
    by (simp add: startswith_def)
  have p: "get_project_id example_world = ''p''"
    by (simp add: example_world_def)
  show ?thesis
    using remote_lookup_triggered [of "''zzz''" example_world] u local_unreachable_example p
    by (simp add: local_url_example)
qed

subsection \<open>The local instance\<close>




text \<open>
  Claim C5, as stated, fails when the local endpoint answers 200 with a body that is
  not JSON: the function raises the \<^verbatim>\<open>JSONDecodeError\<close> of \<^verbatim>\<open>resp.json()\<close> instead of
  returning the pair.
\<close>

theorem local_instance_answers_counterexample:
  "requests_get text_world
     (''http://localhost:'' @ str_nat (APP_SERVER_PORT text_world) @ ''/api/v1/commands'') =
     Response \<lparr>status_code = 200, json = None\<rparr> \<and>
   resolve text_world None = Inl JSONDecodeError"
proof -
  have r: "requests_get text_world (local_url text_world @ ''/api/v1/commands'') =
      Response \<lparr>status_code = 200, json = None\<rparr>"
    by (simp add: text_world_def)
  from local_instance_response [OF r] r show ?thesis
    by (simp add: resolve_def retrieve_absent local_url_def)
qed

text \<open>
  Claim C5, amended. With an absent identifier, when the GET of
  \<^verbatim>\<open>http://localhost:<APP_SERVER_PORT>/api/v1/commands\<close> is answered with status 200 and a
  JSON body, the function returns the pair of \<^verbatim>\<open>http://localhost:<APP_SERVER_PORT>\<close> and
  the parsed body, and that GET is the only call made: the directory service is not
  consulted.
\<close>

theorem local_instance_answers:
  assumes "requests_get w (''http://localhost:'' @ str_nat (APP_SERVER_PORT w) @ ''/api/v1/commands'')
             = Response resp"
    and "status_code resp = 200" and "json resp = Some body"
  shows "resolve w None =
           Inr (Some (''http://localhost:'' @ str_nat (APP_SERVER_PORT w)), Some body) \<and>
         calls_of w None =
           [Get (''http://localhost:'' @ str_nat (APP_SERVER_PORT w) @ ''/api/v1/commands'')]"
proof -
  have "requests_get w (local_url w @ ''/api/v1/commands'') = Response resp"
    using assms(1) by (simp add: local_url_def)
  from local_instance_response [OF this] assms(2,3) show ?thesis
    by (simp add: resolve_def calls_of_def retrieve_absent local_url_def)
qed

theorem local_instance_answers_witness:
  "resolve local_world None = Inr (Some ''http://localhost:7501'', Some manifest) \<and>
   calls_of local_world None = [Get ''http://localhost:7501/api/v1/commands'']"
proof -
  have p: "APP_SERVER_PORT local_world = 7501"
    by (simp add: local_world_def example_world_def)
  have r: "requests_get local_world
      (''http://localhost:'' @ str_nat (APP_SERVER_PORT local_world) @ ''/api/v1/commands'') =
      Response \<lparr>status_code = 200, json = Some manifest\<rparr>"
    by (simp add: p str_nat_7501) (simp add: local_world_def)
  show ?thesis
    using local_instance_answers [OF r] by (simp add: p str_nat_7501)
qed

text \<open>
  Claim C6. With an absent identifier, when the GET of the local endpoint fails to
  connect, the function raises "provide an application name, id or url" (the
  specification's \<^verbatim>\<open>InputError\<close>) with the names of all the instances the directory
  service listed, in the order of the listing; with an empty listing the list of names
  is empty.
\<close>

theorem absent_identifier_lists_names:
  assumes "requests_get w (local_url w @ ''/api/v1/commands'') = ConnectionError"
  shows "resolve w None =
           Inl (ProvideApplicationName
                  (map name (list_lightningapp_instances w (get_project_id w)))) \<and>
         (list_lightningapp_instances w (get_project_id w) = [] \<longrightarrow>
            resolve w None = Inl (ProvideApplicationName []))"
  using local_instance_unreachable [OF assms]
  by (simp add: resolve_def retrieve_absent cloud_absent)

theorem absent_identifier_lists_names_witness:
  "resolve example_world None = Inl (ProvideApplicationName [''foo'', ''bar'']) \<and>
   resolve empty_world None = Inl (ProvideApplicationName [])"
proof -
  have a: "list_lightningapp_instances example_world (get_project_id example_world) = example_apps"
    by (simp add: example_world_def)
  have b: "list_lightningapp_instances empty_world (get_project_id empty_world) = []"
    by (simp add: empty_world_def example_world_def)
  show ?thesis
    using absent_identifier_lists_names [OF local_unreachable_example]
      absent_identifier_lists_names [OF local_unreachable_empty] a b
    by (simp add: example_apps_def)
qed

subsection \<open>No match\<close>

text \<open>
  Claim C7. For every identifier that is a string and not a URL, when no listed instance
  has that string as its id or as its name, the function returns \<^verbatim>\<open>(None, None)\<close> and
  raises nothing. The witness is \<^verbatim>\<open>zzz\<close> on the specification's listing.
\<close>

theorem not_found_is_silent:
  assumes "\<not> is_url (Some s)"
    and "\<forall>a\<in>set (list_lightningapp_instances w (get_project_id w)). id' a \<noteq> s \<and> name a \<noteq> s"
  shows "resolve w (Some s) = Inr (None, None)"
proof (cases "s = []")
  case True
  with assms(1) show ?thesis
    by (simp add: resolve_def retrieve_named cloud_empty)
next
  case False
  with assms(1) scan_no_match [OF assms(2), of w] show ?thesis
    by (simp add: resolve_def retrieve_named cloud_named)
qed

theorem not_found_is_silent_witness:
  "resolve example_world (Some ''zzz'') = Inr (None, None)"
proof -
  have u: "\<not> is_url (Some ''zzz'')"
    by (simp add: startswith_def)
  have n: "\<forall>a\<in>set (list_lightningapp_instances example_world (get_project_id example_world)).
      id' a \<noteq> ''zzz'' \<and> name a \<noteq> ''zzz''"
    by (simp add: example_world_def example_apps_def)
  show ?thesis
    using not_found_is_silent [OF u n] .
qed

section \<open>Properties of the environment variables\<close>

subsection \<open>Splitting and the name check\<close>

text \<open>
  The split has one part more than the string has separators, and its first part is the
  text before the first separator: an entry has two parts and a name exactly when it
  holds one \<^verbatim>\<open>=\<close> sign and does not start with it.
\<close>

lemma split_not_Nil: "split sep s \<noteq> []"
  by (induction s) (auto split: list.splits)

lemma length_split: "length (split sep s) = Suc (count_list s sep)"
  by (induction s) (auto split: list.splits simp: split_not_Nil)

lemma hd_split: "hd (split sep s) = takeWhile (\<lambda>c. c \<noteq> sep) s"
  by (induction s) (auto split: list.splits simp: split_not_Nil)

lemma two_parts_iff:
  "two_parts e \<longleftrightarrow> count_list e CHR ''='' = 1 \<and> takeWhile (\<lambda>c. c \<noteq> CHR ''='') e \<noteq> []"
  using hd_split [of "CHR ''=''" e] split_not_Nil [of "CHR ''=''" e]
  by (auto simp: two_parts_def var_name_of_def length_split hd_conv_nth)

lemma re_match_name_iff: "re_match_name n \<longleftrightarrow> n \<noteq> [] \<and> name_char (hd n)"
  by (cases n) (simp_all add: re_match_name_def)

subsection \<open>One entry at a time\<close>

lemma format_loop_Cons:
  "format_loop d (e # rest) =
     (if \<not> two_parts e then Inl (InvalidFormat e)
      else if d (var_name_of e) \<noteq> None then Inl (Duplicated (var_name_of e))
      else if \<not> name_char (hd (var_name_of e)) then Inl (ValueError (var_name_of e))
      else format_loop (d(var_name_of e \<mapsto> value_of e)) rest)"
  by (auto simp: Let_def two_parts_def var_name_of_def value_of_def re_match_name_iff)

declare format_loop.simps(2) [simp del]

lemma format_loop_malformed:
  "\<exists>e\<in>set l. \<not> two_parts e \<Longrightarrow> isl (format_loop d l)"
proof (induction l arbitrary: d)
  case Nil
  then show ?case by simp
next
  case (Cons e rest)
  show ?case
  proof (cases "two_parts e")
    case False
    then show ?thesis by (simp add: format_loop_Cons)
  next
    case True
    with Cons.prems have "\<exists>x\<in>set rest. \<not> two_parts x" by auto
    then have "isl (format_loop d' rest)" for d'
      by (rule Cons.IH)
    then show ?thesis
      by (simp add: format_loop_Cons)
  qed
qed

lemma format_loop_duplicate:
  "\<not> distinct (map var_name_of l) \<or> (\<exists>e\<in>set l. d (var_name_of e) \<noteq> None) \<Longrightarrow>
   isl (format_loop d l)"
proof (induction l arbitrary: d)
  case Nil
  then show ?case by simp
next
  case (Cons e rest)
  show ?case
  proof (cases "two_parts e \<and> d (var_name_of e) = None \<and> name_char (hd (var_name_of e))")
    case False
    then show ?thesis
      by (auto simp: format_loop_Cons)
  next
    case True
    let ?d = "d(var_name_of e \<mapsto> value_of e)"
    from Cons.prems True
    have "\<not> distinct (map var_name_of rest) \<or> (\<exists>x\<in>set rest. ?d (var_name_of x) \<noteq> None)"
      by auto
    then have "isl (format_loop ?d rest)"
      by (rule Cons.IH)
    with True show ?thesis
      by (simp add: format_loop_Cons)
  qed
qed

lemma format_loop_dict:
  "\<forall>e\<in>set l. two_parts e \<and> name_char (hd (var_name_of e)) \<and> d (var_name_of e) = None \<Longrightarrow>
   distinct (map var_name_of l) \<Longrightarrow>
   format_loop d l = Inr (d ++ map_of (map (\<lambda>e. (var_name_of e, value_of e)) l))"
proof (induction l arbitrary: d)
  case Nil
  then show ?case by simp
next
  case (Cons e rest)
  let ?d = "d(var_name_of e \<mapsto> value_of e)"
  let ?m = "map_of (map (\<lambda>e. (var_name_of e, value_of e)) rest)"
  from Cons.prems(2) have "\<forall>x\<in>set rest. var_name_of x \<noteq> var_name_of e"
    by (auto simp: image_iff)
  with Cons.prems(1)
  have "\<forall>x\<in>set rest. two_parts x \<and> name_char (hd (var_name_of x)) \<and> ?d (var_name_of x) = None"
    by simp
  moreover from Cons.prems have "distinct (map var_name_of rest)"
    by simp
  ultimately have ih: "format_loop ?d rest = Inr (?d ++ ?m)"
    by (rule Cons.IH)
  have "dom ?m = var_name_of ` set rest"
    by (simp add: dom_map_of_conv_image_fst image_image)
  with Cons.prems(2) have "var_name_of e \<notin> dom ?m"
    by simp
  then have l: "?d ++ ?m = (d ++ ?m)(var_name_of e \<mapsto> value_of e)"
    by (rule map_add_upd_left)
  have r: "d ++ map_of (map (\<lambda>e. (var_name_of e, value_of e)) (e # rest)) =
      (d ++ ?m)(var_name_of e \<mapsto> value_of e)"
    by (simp only: list.map map_of.simps fst_conv snd_conv map_add_upd)
  from Cons.prems(1) have "format_loop d (e # rest) = format_loop ?d rest"
    by (simp add: format_loop_Cons)
  with ih have "format_loop d (e # rest) = Inr (?d ++ ?m)"
    by simp
  then show ?case
    by (simp only: l r)
qed

lemma split_examples:
  "split CHR ''='' ''foo=bar'' = [''foo'', ''bar'']"
  "split CHR ''='' ''bla=bloz'' = [''bla'', ''bloz'']"
  "split CHR ''='' ''foo'' = [''foo'']"
  "split CHR ''='' ''a=b=c'' = [''a'', ''b'', ''c'']"
  "split CHR ''='' ''=b'' = ['''', ''b'']"
  by simp_all

lemma format_loop_append:
  "format_loop d (pre @ rest) =
     (case format_loop d pre of Inl err \<Rightarrow> Inl err | Inr d' \<Rightarrow> format_loop d' rest)"
  by (induction pre arbitrary: d) (simp_all add: format_loop_Cons)

lemma format_loop_ValueError:
  "format_loop d0 l = Inl (ValueError n) \<Longrightarrow>
   \<exists>pre e post d. l = pre @ e # post \<and> format_loop d0 pre = Inr d \<and> two_parts e \<and>
      var_name_of e = n \<and> d n = None \<and> \<not> name_char (hd n)"
proof (induction l arbitrary: d0)
  case Nil
  then show ?case by simp
next
  case (Cons e rest)
  show ?case
  proof (cases "two_parts e \<and> d0 (var_name_of e) = None \<and> name_char (hd (var_name_of e))")
    case True
    let ?d = "d0(var_name_of e \<mapsto> value_of e)"
    from True Cons.prems have "format_loop ?d rest = Inl (ValueError n)"
      by (simp add: format_loop_Cons)
    then obtain pre x post d where
      x: "rest = pre @ x # post" "format_loop ?d pre = Inr d" "two_parts x"
        "var_name_of x = n" "d n = None" "\<not> name_char (hd n)"
      using Cons.IH by blast
    from True x(2) have "format_loop d0 (e # pre) = Inr d"
      by (simp add: format_loop_Cons)
    with x have "e # rest = (e # pre) @ x # post \<and> format_loop d0 (e # pre) = Inr d \<and>
        two_parts x \<and> var_name_of x = n \<and> d n = None \<and> \<not> name_char (hd n)"
      by simp
    then show ?thesis by blast
  next
    case False
    with Cons.prems have "e # rest = [] @ e # rest \<and> format_loop d0 [] = Inr d0 \<and>
        two_parts e \<and> var_name_of e = n \<and> d0 n = None \<and> \<not> name_char (hd n)"
      by (auto simp: format_loop_Cons split: if_splits)
    then show ?thesis by blast
  qed
qed

subsection \<open>Errors and the dictionary\<close>

text \<open>
  Claim C9, as stated, fails on the list \<^verbatim>\<open>["-a=1"]\<close>: its only entry splits in two
  parts at its one \<^verbatim>\<open>=\<close> sign, the name is not empty and nothing is duplicated, yet
  the function raises the \<^verbatim>\<open>ValueError\<close> of the name check instead of returning a
  dictionary.
\<close>

theorem format_counterexample:
  "two_parts ''-a=1'' \<and> distinct (map var_name_of [''-a=1'']) \<and>
   format_input_env_variables [''-a=1''] = Inl (ValueError ''-a'')"
  by (simp add: two_parts_def var_name_of_def format_input_env_variables_def
      format_loop.simps(2) re_match_name_def name_char_def)

text \<open>
  Claim C9, amended. The function raises for every list with an entry whose split at
  \<^verbatim>\<open>=\<close> has not exactly two parts or whose name part is empty, and for every list in
  which two entries have the same name. For every list in which each entry has two parts
  and a name made of characters of \<^verbatim>\<open>[0-9a-zA-Z_]\<close> only, and no name occurs twice, it
  returns the dictionary that maps the name of each entry to its value.
\<close>

theorem format_input_env_variables_result:
  "((\<exists>e\<in>set env_list. \<not> two_parts e) \<longrightarrow> isl (format_input_env_variables env_list)) \<and>
   (\<not> distinct (map var_name_of env_list) \<longrightarrow> isl (format_input_env_variables env_list)) \<and>
   ((\<forall>e\<in>set env_list. two_parts e \<and> (\<forall>c\<in>set (var_name_of e). name_char c)) \<and>
    distinct (map var_name_of env_list) \<longrightarrow>
      format_input_env_variables env_list =
        Inr (map_of (map (\<lambda>e. (var_name_of e, value_of e)) env_list)))"
proof -
  have a: "isl (format_input_env_variables env_list)" if "\<exists>e\<in>set env_list. \<not> two_parts e"
    using that unfolding format_input_env_variables_def by (rule format_loop_malformed)
  have b: "isl (format_input_env_variables env_list)" if "\<not> distinct (map var_name_of env_list)"
    using that unfolding format_input_env_variables_def by (intro format_loop_duplicate) simp
  have c: "format_input_env_variables env_list =
        Inr (map_of (map (\<lambda>e. (var_name_of e, value_of e)) env_list))"
    if ok: "\<forall>e\<in>set env_list. two_parts e \<and> (\<forall>c\<in>set (var_name_of e). name_char c)"
      and "distinct (map var_name_of env_list)"
  proof -
    have "two_parts e \<and> name_char (hd (var_name_of e))" if "e \<in> set env_list" for e
      using ok that by (auto simp: two_parts_def)
    with format_loop_dict [of env_list Map.empty] that(2) show ?thesis
      by (simp add: format_input_env_variables_def)
  qed
  from a b c show ?thesis by blast
qed

theorem format_input_env_variables_result_witness:
  "isl (format_input_env_variables [''foo=bar'', ''foo'']) \<and>
   isl (format_input_env_variables [''foo=bar'', ''a=b=c'']) \<and>
   isl (format_input_env_variables [''foo=bar'', ''=b'']) \<and>
   isl (format_input_env_variables [''foo=bar'', ''foo=bar'']) \<and>
   format_input_env_variables [''foo=bar'', ''bla=bloz''] =
     Inr [''bla'' \<mapsto> ''bloz'', ''foo'' \<mapsto> ''bar'']"
proof -
  have t: "two_parts ''foo=bar''" "two_parts ''bla=bloz''" "\<not> two_parts ''foo''"
    "\<not> two_parts ''a=b=c''" "\<not> two_parts ''=b''"
    by (simp_all add: two_parts_def var_name_of_def)
  have n: "var_name_of ''foo=bar'' = ''foo''" "var_name_of ''bla=bloz'' = ''bla''"
    "value_of ''foo=bar'' = ''bar''" "value_of ''bla=bloz'' = ''bloz''"
    by (simp_all add: var_name_of_def value_of_def)
  have c: "\<forall>c\<in>set ''foo''. name_char c" "\<forall>c\<in>set ''bla''. name_char c"
    by (simp_all add: name_char_def)
  show ?thesis
    using format_input_env_variables_result [of "[''foo=bar'', ''foo'']"]
      format_input_env_variables_result [of "[''foo=bar'', ''a=b=c'']"]
      format_input_env_variables_result [of "[''foo=bar'', ''=b'']"]
      format_input_env_variables_result [of "[''foo=bar'', ''foo=bar'']"]
      format_input_env_variables_result [of "[''foo=bar'', ''bla=bloz'']"]
    by (simp add: t n c)
qed

subsection \<open>The name check looks at the first character\<close>

text \<open>
  Claim C10. On a non-empty name the check \<^verbatim>\<open>re.match(r"[0-9a-zA-Z_]+", var_name)\<close>
  succeeds exactly when the first character is in the class. So the function raises the
  \<^verbatim>\<open>ValueError\<close> for a name exactly when the entries before some entry were all accepted,
  that entry has two parts and this name, the name is not yet in the dictionary, and the
  first character of the name is outside \<^verbatim>\<open>[0-9a-zA-Z_]\<close>. An entry whose name starts with
  a character of the class is accepted whatever follows: \<^verbatim>\<open>a-b=1\<close> gives the dictionary
  that maps \<^verbatim>\<open>a-b\<close> to \<^verbatim>\<open>1\<close>.
\<close>

theorem invalid_name_by_first_character:
  "(n \<noteq> [] \<longrightarrow> re_match_name n = name_char (hd n)) \<and>
   (format_input_env_variables env_list = Inl (ValueError n) \<longleftrightarrow>
      (\<exists>pre e post d. env_list = pre @ e # post \<and> format_input_env_variables pre = Inr d \<and>
         two_parts e \<and> var_name_of e = n \<and> d n = None \<and> \<not> name_char (hd n))) \<and>
   (two_parts env_str \<and> name_char (hd (var_name_of env_str)) \<longrightarrow>
      format_input_env_variables [env_str] = Inr [var_name_of env_str \<mapsto> value_of env_str]) \<and>
   format_input_env_variables [''a-b=1''] = Inr [''a-b'' \<mapsto> ''1'']"
proof -
  have a: "re_match_name n = name_char (hd n)" if "n \<noteq> []"
    using that by (simp add: re_match_name_iff)
  have b: "\<exists>pre e post d. env_list = pre @ e # post \<and> format_input_env_variables pre = Inr d \<and>
         two_parts e \<and> var_name_of e = n \<and> d n = None \<and> \<not> name_char (hd n)"
    if "format_input_env_variables env_list = Inl (ValueError n)"
    using that unfolding format_input_env_variables_def by (rule format_loop_ValueError)
  have c: "format_input_env_variables env_list = Inl (ValueError n)"
    if "env_list = pre @ e # post" "format_input_env_variables pre = Inr d" "two_parts e"
      "var_name_of e = n" "d n = None" "\<not> name_char (hd n)" for pre e post d
    using that by (simp add: format_input_env_variables_def format_loop_append format_loop_Cons)
  have d: "format_input_env_variables [env_str] = Inr [var_name_of env_str \<mapsto> value_of env_str]"
    if "two_parts env_str" "name_char (hd (var_name_of env_str))"
    using that by (simp add: format_input_env_variables_def format_loop_Cons)
  have e: "format_input_env_variables [''a-b=1''] = Inr [''a-b'' \<mapsto> ''1'']"
    by (simp add: format_input_env_variables_def format_loop.simps(2) re_match_name_def
        name_char_def)
  from a b c d e show ?thesis by blast
qed

theorem invalid_name_by_first_character_witness:
  "re_match_name ''a-b'' \<and>
   format_input_env_variables [''a-b=1'', ''-c=2''] = Inl (ValueError ''-c'') \<and>
   format_input_env_variables [''a-b=1''] = Inr [''a-b'' \<mapsto> ''1'']"
proof -
  have t: "two_parts ''-c=2''" "var_name_of ''-c=2'' = ''-c''" "two_parts ''a-b=1''"
    "var_name_of ''a-b=1'' = ''a-b''" "value_of ''a-b=1'' = ''1''"
    by (simp_all add: two_parts_def var_name_of_def value_of_def)
  have c: "name_char CHR ''a''" "\<not> name_char CHR ''-''"
    by (simp_all add: name_char_def)
  note th = invalid_name_by_first_character
      [where n = "''-c''" and env_list = "[''a-b=1'', ''-c=2'']" and env_str = "''a-b=1''"]
  note th' = invalid_name_by_first_character [where n = "''a-b''"]
  have first: "format_input_env_variables [''a-b=1''] = Inr [''a-b'' \<mapsto> ''1'']"
    using th t c by simp
  have "[''a-b=1'', ''-c=2''] = [''a-b=1''] @ ''-c=2'' # [] \<and>
      format_input_env_variables [''a-b=1''] = Inr [''a-b'' \<mapsto> ''1''] \<and>
      two_parts ''-c=2'' \<and> var_name_of ''-c=2'' = ''-c'' \<and> [''a-b'' \<mapsto> ''1''] ''-c'' = None \<and>
      \<not> name_char (hd ''-c'')"
    using first t c by simp
  then have "\<exists>pre e post d. [''a-b=1'', ''-c=2''] = pre @ e # post \<and>
      format_input_env_variables pre = Inr d \<and>
      two_parts e \<and> var_name_of e = ''-c'' \<and> d ''-c'' = None \<and> \<not> name_char (hd ''-c'')"
    by blast
  with th have "format_input_env_variables [''a-b=1'', ''-c=2''] = Inl (ValueError ''-c'')"
    by blast
  moreover have "re_match_name ''a-b''"
    using th' c by simp
  ultimately show ?thesis
    using first by simp
qed

end
